theory Spec2Isabelle
  imports Complex_Main "HOL-Library.Char_ord" "HOL-Library.List_Lexorder" "HOL-Library.Multiset"
begin

section \<open>Values, errors and the outside world\<close>

text \<open>
  A value of Go's \<^verbatim>\<open>interface{}\<close> as \<^verbatim>\<open>encoding/json\<close> produces it when it decodes
  into an untyped target: nil, bool, float64, string, \<^verbatim>\<open>[]interface{}\<close> or
  \<^verbatim>\<open>map[string]interface{}\<close>. The program only copies float64 values, so their type is
  the parameter \<open>'f\<close>. A Go map is kept as an association list read with \<open>map_of\<close>.
\<close>

datatype 'f gval =
    GNil
  | GBool bool
  | GFloat 'f
  | GString string
  | GSlice "'f gval list"
  | GMap "(string \<times> 'f gval) list"

type_synonym 'f gmap = "(string \<times> 'f gval) list"

text \<open>
  What a function of the program can end with besides its value: an \<^verbatim>\<open>error\<close> it
  returns (kept as the text of \<^verbatim>\<open>err.Error()\<close>), or a run-time panic, which is what a
  type assertion \<^verbatim>\<open>x.(T)\<close> without the comma-ok form does when \<^verbatim>\<open>x\<close> is not a
  \<^verbatim>\<open>T\<close>.
\<close>

datatype fault = Error string | Panic

text \<open>\<^verbatim>\<open>m[k]\<close> on a Go map: the zero value (nil) when the key is missing.\<close>

definition index :: "'f gmap \<Rightarrow> string \<Rightarrow> 'f gval" where
  "index m k = (case map_of m k of None \<Rightarrow> GNil | Some v \<Rightarrow> v)"

text \<open>The type assertions of the program; \<open>None\<close> is the panic.\<close>

fun asMap :: "'f gval \<Rightarrow> 'f gmap option" where
  "asMap (GMap m) = Some m"
| "asMap _ = None"

fun asSlice :: "'f gval \<Rightarrow> 'f gval list option" where
  "asSlice (GSlice xs) = Some xs"
| "asSlice _ = None"

fun asString :: "'f gval \<Rightarrow> string option" where
  "asString (GString s) = Some s"
| "asString _ = None"

fun asFloat64 :: "'f gval \<Rightarrow> 'f option" where
  "asFloat64 (GFloat x) = Some x"
| "asFloat64 _ = None"

text \<open>An outbound HTTP request and the reply to it.\<close>

record request =
  reqMethod :: string
  reqURL :: string
  reqHeaders :: "(string \<times> string) list"
  reqBody :: string

text \<open>
  \<open>respBody\<close> is \<open>Inr\<close> the bytes of the body, or \<open>Inl\<close> the error that reading the body
  stream ends with.
\<close>

record http_response =
  statusCode :: int
  respBody :: "string + string"

record TimeEntry =
  Time :: string

record Trip =
  ID :: string
  Start :: TimeEntry
  End :: TimeEntry

record Vehicle =
  vehicleID :: string
  Make :: string
  Model :: string
  Year :: int

text \<open>
  The libraries and the network the program calls, as parameters:
  \<^item> \<open>newRequestErr\<close>: the error of \<^verbatim>\<open>http.NewRequest\<close> for a method and a URL, if any;
  \<^item> \<open>clientDo\<close>: \<^verbatim>\<open>client.Do\<close>, the transport error or the response;
  \<^item> \<open>jsonUnmarshal\<close>: \<^verbatim>\<open>json.Unmarshal\<close> into a \<^verbatim>\<open>map[string]interface{}\<close>;
  \<^item> \<open>decodeTrips\<close>: \<^verbatim>\<open>json.Decoder.Decode\<close> into a \<^verbatim>\<open>TripsResponse\<close>, giving its
    \<^verbatim>\<open>Trips\<close>;
  \<^item> \<open>decodeVehicles\<close>: the same into a \<^verbatim>\<open>VehicleResponse\<close>, giving
    \<^verbatim>\<open>Data.Vehicles.Nodes\<close>;
  \<^item> \<open>marshalRequest\<close>: \<^verbatim>\<open>json.Marshal\<close> of a \<^verbatim>\<open>GraphQLRequest\<close> with the given query.
\<close>

record 'f world =
  newRequestErr :: "string \<Rightarrow> string \<Rightarrow> string option"
  clientDo :: "request \<Rightarrow> string + http_response"
  jsonUnmarshal :: "string \<Rightarrow> string + 'f gmap"
  decodeTrips :: "string \<Rightarrow> string + Trip list"
  decodeVehicles :: "string \<Rightarrow> string + Vehicle list"
  marshalRequest :: "string \<Rightarrow> string + string"

record Settings =
  ClientID :: string
  Domain' :: string
  GrantType :: string
  SubmitChallengeURL :: string
  IdentityAPIURL :: string
  TripsAPIBaseURL :: string
  DeviceDataAPIBaseURL :: string

text \<open>\<^verbatim>\<open>%d\<close> of \<^verbatim>\<open>fmt.Sprintf\<close>: a decimal numeral, with a minus sign when negative.\<close>

fun decimal :: "nat \<Rightarrow> string" where
  "decimal n =
     (if n < 10 then [''0123456789'' ! n]
      else decimal (n div 10) @ [''0123456789'' ! (n mod 10)])"

definition itoa :: "int \<Rightarrow> string" where
  "itoa i = (if i < 0 then CHR ''-'' # decimal (nat (- i)) else decimal (nat i))"

text \<open>
  \<^verbatim>\<open>url.QueryEscape\<close>: letters, digits and \<^verbatim>\<open>-_.~\<close> stay, a space becomes \<^verbatim>\<open>+\<close>, every
  other byte becomes \<^verbatim>\<open>%XX\<close> in upper-case hexadecimal.
\<close>

definition unreserved :: "char \<Rightarrow> bool" where
  "unreserved c \<longleftrightarrow>
     (CHR ''a'' \<le> c \<and> c \<le> CHR ''z'') \<or> (CHR ''A'' \<le> c \<and> c \<le> CHR ''Z'')
     \<or> (CHR ''0'' \<le> c \<and> c \<le> CHR ''9'') \<or> c \<in> set ''-_.~''"

definition escapeByte :: "char \<Rightarrow> string" where
  "escapeByte c =
     (if unreserved c then [c]
      else if c = CHR '' '' then ''+''
      else [CHR ''%'', ''0123456789ABCDEF'' ! (of_char c div 16),
            ''0123456789ABCDEF'' ! (of_char c mod 16)])"

definition QueryEscape :: "string \<Rightarrow> string" where
  "QueryEscape s = concat (map escapeByte s)"

section \<open>The cache\<close>

text \<open>
  The go-cache store behind \<^verbatim>\<open>cacheInstance\<close>, created with
  \<^verbatim>\<open>cache.New(cache.DefaultExpiration, 10*time.Minute)\<close>; the trip functions read
  \<^verbatim>\<open>CacheInstance\<close>, whose declaration is not among the sources and which is taken to be
  such a store too. An item is a value and the instant (in nanoseconds) it expires at, 0
  for never. \<^verbatim>\<open>Set(k, x, d)\<close> with a positive duration
  \<open>d\<close> makes the item expire at now + d; \<^verbatim>\<open>Get\<close> finds an item unless the clock is
  past its expiration. The janitor that deletes expired items changes nothing \<^verbatim>\<open>Get\<close>
  can see.
\<close>

record 'f item =
  object :: "'f gval"
  expiration :: int

type_synonym 'f cache = "string \<rightharpoonup> 'f item"

definition cacheSet :: "'f cache \<Rightarrow> string \<Rightarrow> 'f gval \<Rightarrow> int \<Rightarrow> int \<Rightarrow> 'f cache" where
  "cacheSet c k x d now =
     c(k \<mapsto> \<lparr>object = x, expiration = (if d > 0 then now + d else 0)\<rparr>)"

definition cacheGet :: "'f cache \<Rightarrow> string \<Rightarrow> int \<Rightarrow> 'f gval option" where
  "cacheGet c k now =
     (case c k of
        None \<Rightarrow> None
      | Some it \<Rightarrow>
          if expiration it > 0 \<and> now > expiration it then None else Some (object it))"

text \<open>\<^verbatim>\<open>2 * time.Hour\<close>, in nanoseconds.\<close>

definition twoHours :: int where
  "twoHours = 2 * 3600 * 1000000000"

section \<open>Trips: the trip index, the telemetry history and the path\<close>

type_synonym tripIndex = "string \<rightharpoonup> int"

record 'f LocationData =
  Latitude :: 'f
  Longitude :: 'f

definition privilegeTokenKey :: "string \<Rightarrow> string" where
  "privilegeTokenKey sessionCookie = ''privilegeToken_'' @ sessionCookie"

definition bearerRequest :: "string \<Rightarrow> string \<Rightarrow> request" where
  "bearerRequest url token =
     \<lparr>reqMethod = ''GET'', reqURL = url,
      reqHeaders = [(''Authorization'', ''Bearer '' @ token)], reqBody = []\<rparr>"

text \<open>The loop of \<^verbatim>\<open>queryTripsAPI\<close> over the returned trips.\<close>

fun recordTrips :: "int \<Rightarrow> Trip list \<Rightarrow> tripIndex \<Rightarrow> tripIndex" where
  "recordTrips tokenID [] idx = idx"
| "recordTrips tokenID (trip # trips) idx = recordTrips tokenID trips (idx(ID trip \<mapsto> tokenID))"

text \<open>
  \<^verbatim>\<open>queryTripsAPI\<close>: the result, the outbound requests it sent, and the trip index after
  it. The arguments after the settings are the cache, the clock, the value of the
  \<^verbatim>\<open>session_id\<close> cookie, the vehicle token and the trip index before the call.
\<close>

definition queryTripsAPI ::
  "'f world \<Rightarrow> Settings \<Rightarrow> 'f cache \<Rightarrow> int \<Rightarrow> string \<Rightarrow> int \<Rightarrow> tripIndex
    \<Rightarrow> (fault + Trip list) \<times> request list \<times> tripIndex" where
  "queryTripsAPI w settings cache now sessionCookie tokenID idx =
     (case cacheGet cache (privilegeTokenKey sessionCookie) now of
        None \<Rightarrow> (Inl (Error ''privilege token not found in cache''), [], idx)
      | Some token \<Rightarrow>
          let url = TripsAPIBaseURL settings @ ''/vehicle/'' @ itoa tokenID @ ''/trips'' in
          (case newRequestErr w ''GET'' url of
             Some err \<Rightarrow> (Inl (Error err), [], idx)
           | None \<Rightarrow>
               (case asString token of
                  None \<Rightarrow> (Inl Panic, [], idx)
                | Some tok \<Rightarrow>
                    let req = bearerRequest url tok in
                    (case clientDo w req of
                       Inl err \<Rightarrow> (Inl (Error err), [req], idx)
                     | Inr resp \<Rightarrow>
                         (case respBody resp of
                            Inl err \<Rightarrow> (Inl (Error err), [req], idx)
                          | Inr bytes \<Rightarrow>
                              (case decodeTrips w bytes of
                                 Inl err \<Rightarrow> (Inl (Error err), [req], idx)
                               | Inr trips \<Rightarrow>
                                   (Inr trips, [req], recordTrips tokenID trips idx)))))))"

text \<open>
  The chain of assertions
  \<^verbatim>\<open>hit.(map)["_source"].(map)["data"].(map)\<close> that both the comparison of the sort and
  \<^verbatim>\<open>extractLocationData\<close> go through.
\<close>

definition hitData :: "'f gval \<Rightarrow> 'f gmap option" where
  "hitData hit =
     Option.bind (asMap hit) (\<lambda>hitMap.
     Option.bind (asMap (index hitMap ''_source'')) (\<lambda>source.
     asMap (index source ''data'')))"

definition hitTimestamp :: "'f gval \<Rightarrow> string option" where
  "hitTimestamp hit = Option.bind (hitData hit) (\<lambda>data. asString (index data ''timestamp''))"

text \<open>
  The \<^verbatim>\<open>less\<close> closure given to \<^verbatim>\<open>sort.SliceStable\<close>: the timestamp of the first hit,
  then of the second, then the comparison of the two strings, which in Go is the
  lexicographic order of their bytes.
\<close>

definition lessHit :: "'f gval \<Rightarrow> 'f gval \<Rightarrow> bool option" where
  "lessHit a b =
     (case hitTimestamp a of
        None \<Rightarrow> None
      | Some iTimestamp \<Rightarrow>
          (case hitTimestamp b of
             None \<Rightarrow> None
           | Some jTimestamp \<Rightarrow> Some (iTimestamp < jTimestamp)))"

text \<open>
  \<^verbatim>\<open>sort.SliceStable\<close> as the insertion sort the standard library runs on a block:
  \<^verbatim>\<open>for i := a+1; i < b; i++ { for j := i; j > a && less(j, j-1); j-- { swap(j, j-1) } }\<close>.
  A slice of at most 20 elements is one block; a longer one is sorted in blocks of 20 this
  way and the blocks are merged, which ends in the same stably sorted slice.
  \<open>insertHit lt x front\<close> moves \<open>x\<close> left through the part already sorted, which is
  kept with its last element first; a comparison that panics ends the sort.
\<close>

fun insertHit :: "('a \<Rightarrow> 'a \<Rightarrow> bool option) \<Rightarrow> 'a \<Rightarrow> 'a list \<Rightarrow> 'a list option" where
  "insertHit lt x [] = Some [x]"
| "insertHit lt x (y # ys) =
     (case lt x y of
        None \<Rightarrow> None
      | Some True \<Rightarrow> map_option ((#) y) (insertHit lt x ys)
      | Some False \<Rightarrow> Some (x # y # ys))"

fun insertionSort :: "('a \<Rightarrow> 'a \<Rightarrow> bool option) \<Rightarrow> 'a list \<Rightarrow> 'a list \<Rightarrow> 'a list option" where
  "insertionSort lt front [] = Some (rev front)"
| "insertionSort lt front (x # xs) =
     (case insertHit lt x front of
        None \<Rightarrow> None
      | Some front' \<Rightarrow> insertionSort lt front' xs)"

definition SliceStable :: "('a \<Rightarrow> 'a \<Rightarrow> bool option) \<Rightarrow> 'a list \<Rightarrow> 'a list option" where
  "SliceStable lt xs = insertionSort lt [] xs"

definition sortHits :: "'f gval list \<Rightarrow> 'f gval list option" where
  "sortHits hits = SliceStable lessHit hits"

definition hitLocation :: "'f gval \<Rightarrow> 'f LocationData option" where
  "hitLocation hit =
     Option.bind (hitData hit) (\<lambda>data.
     Option.bind (asFloat64 (index data ''latitude'')) (\<lambda>lat.
     Option.bind (asFloat64 (index data ''longitude'')) (\<lambda>lon.
     Some \<lparr>Latitude = lat, Longitude = lon\<rparr>)))"

fun extractLocationData :: "'f gval list \<Rightarrow> 'f LocationData list option" where
  "extractLocationData [] = Some []"
| "extractLocationData (hit # hits) =
     (case hitLocation hit of
        None \<Rightarrow> None
      | Some locData \<Rightarrow> map_option ((#) locData) (extractLocationData hits))"

text \<open>\<^verbatim>\<open>result["hits"].(map[string]interface{})["hits"].([]interface{})\<close>\<close>

definition resultHits :: "'f gmap \<Rightarrow> 'f gval list option" where
  "resultHits result =
     Option.bind (asMap (index result ''hits'')) (\<lambda>outer. asSlice (index outer ''hits''))"

definition historyURL :: "Settings \<Rightarrow> int \<Rightarrow> string \<Rightarrow> string \<Rightarrow> string" where
  "historyURL settings tokenID startTime endTime =
     DeviceDataAPIBaseURL settings @ ''/vehicle/'' @ itoa tokenID @ ''/history?startDate=''
       @ QueryEscape startTime @ ''&endDate='' @ QueryEscape endTime"

definition queryDeviceDataHistory ::
  "'f world \<Rightarrow> Settings \<Rightarrow> 'f cache \<Rightarrow> int \<Rightarrow> string \<Rightarrow> int \<Rightarrow> string \<Rightarrow> string
    \<Rightarrow> (fault + 'f LocationData list) \<times> request list" where
  "queryDeviceDataHistory w settings cache now sessionCookie tokenID startTime endTime =
     (case cacheGet cache (privilegeTokenKey sessionCookie) now of
        None \<Rightarrow> (Inl (Error ''privilege token not found in cache''), [])
      | Some token \<Rightarrow>
          let ddUrl = historyURL settings tokenID startTime endTime in
          (case newRequestErr w ''GET'' ddUrl of
             Some err \<Rightarrow> (Inl (Error err), [])
           | None \<Rightarrow>
               (case asString token of
                  None \<Rightarrow> (Inl Panic, [])
                | Some tok \<Rightarrow>
                    let req = bearerRequest ddUrl tok in
                    (case clientDo w req of
                       Inl err \<Rightarrow> (Inl (Error err), [req])
                     | Inr resp \<Rightarrow>
                         (case respBody resp of
                            Inl err \<Rightarrow> (Inl (Error err), [req])
                          | Inr responseBody \<Rightarrow>
                              (case jsonUnmarshal w responseBody of
                                 Inl err \<Rightarrow> (Inl (Error err), [req])
                               | Inr result \<Rightarrow>
                                   (case resultHits result of
                                      None \<Rightarrow> (Inl Panic, [req])
                                    | Some hits \<Rightarrow>
                                        (case sortHits hits of
                                           None \<Rightarrow> (Inl Panic, [req])
                                         | Some sortedHits \<Rightarrow>
                                             (case extractLocationData sortedHits of
                                                None \<Rightarrow> (Inl Panic, [req])
                                              | Some locations \<Rightarrow>
                                                  (Inr locations, [req]))))))))))"

text \<open>The go.geojson values \<^verbatim>\<open>convertToGeoJSON\<close> builds.\<close>

datatype propval = PString string | PInt int

record 'f Geometry =
  geometryType :: string
  LineString :: "'f list list"

record 'f Feature =
  featureType :: string
  geometry :: "'f Geometry"
  Properties :: "string \<rightharpoonup> propval"

record 'f FeatureCollection =
  collectionType :: string
  Features :: "'f Feature list"

definition NewLineStringFeature :: "'f list list \<Rightarrow> 'f Feature" where
  "NewLineStringFeature coords =
     \<lparr>featureType = ''Feature'',
      geometry = \<lparr>geometryType = ''LineString'', LineString = coords\<rparr>,
      Properties = Map.empty\<rparr>"

definition NewFeatureCollection :: "'f FeatureCollection" where
  "NewFeatureCollection = \<lparr>collectionType = ''FeatureCollection'', Features = []\<rparr>"

definition AddFeature :: "'f FeatureCollection \<Rightarrow> 'f Feature \<Rightarrow> 'f FeatureCollection" where
  "AddFeature fc feature = fc\<lparr>Features := Features fc @ [feature]\<rparr>"

fun coordsOf :: "'f LocationData list \<Rightarrow> 'f list list" where
  "coordsOf [] = []"
| "coordsOf (loc # locations) = [Longitude loc, Latitude loc] # coordsOf locations"

definition tripProperties :: "string \<Rightarrow> string \<Rightarrow> string \<Rightarrow> (string \<rightharpoonup> propval)" where
  "tripProperties tripID tripStart tripEnd =
     map_of
       [(''type'', PString ''LineString''),
        (''trip_id'', PString tripID),
        (''trip_start'', PString tripStart),
        (''trip_end'', PString tripEnd),
        (''privacy_zone'', PInt 1),
        (''color'', PString ''black''),
        (''point-color'', PString ''black'')]"

definition convertToGeoJSON ::
  "'f LocationData list \<Rightarrow> string \<Rightarrow> string \<Rightarrow> string \<Rightarrow> 'f FeatureCollection" where
  "convertToGeoJSON locations tripID tripStart tripEnd =
     (let coords = coordsOf locations;
          feature = (NewLineStringFeature coords)
                      \<lparr>Properties := tripProperties tripID tripStart tripEnd\<rparr>
      in AddFeature NewFeatureCollection feature)"

text \<open>What a handler sends back: the status, the body and the cookies it set.\<close>

record cookie =
  cookieName :: string
  cookieValue :: string
  cookieExpires :: int
  cookieHTTPOnly :: bool
  cookieDomain :: string

datatype 'f payload =
    SendString string
  | SendJSON "'f gmap"
  | SendGeoJSON "'f FeatureCollection"

record 'f response =
  status :: int
  payload :: "'f payload"
  cookies :: "cookie list"

text \<open>
  \<^verbatim>\<open>handleMapDataForTrip\<close>: the response (or the panic that leaves the handler) and the
  outbound requests sent.
\<close>

definition handleMapDataForTrip ::
  "'f world \<Rightarrow> Settings \<Rightarrow> 'f cache \<Rightarrow> int \<Rightarrow> string \<Rightarrow> tripIndex \<Rightarrow> string \<Rightarrow> string \<Rightarrow> string
    \<Rightarrow> (fault + 'f response) \<times> request list" where
  "handleMapDataForTrip w settings cache now sessionCookie idx tripID startTime endTime =
     (case idx tripID of
        None \<Rightarrow> (Inr \<lparr>status = 404, payload = SendString ''Trip not found'', cookies = []\<rparr>, [])
      | Some tokenID \<Rightarrow>
          (case queryDeviceDataHistory w settings cache now sessionCookie tokenID startTime endTime of
             (Inl (Error err), sent) \<Rightarrow>
               (Inr \<lparr>status = 500,
                     payload = SendJSON
                       [(''error'', GString (''Failed to fetch historical data: '' @ err))],
                     cookies = []\<rparr>, sent)
           | (Inl Panic, sent) \<Rightarrow> (Inl Panic, sent)
           | (Inr locations, sent) \<Rightarrow>
               (Inr \<lparr>status = 200,
                     payload = SendGeoJSON (convertToGeoJSON locations tripID startTime endTime),
                     cookies = []\<rparr>, sent)))"

text \<open>
  The process since its start, as far as the trip index goes: the calls of
  \<^verbatim>\<open>queryTripsAPI\<close> in the order they ran, each with the world it met, the settings, the
  cache, the clock, the cookie and the vehicle token. Nothing else writes
  \<^verbatim>\<open>tripIDToTokenIDMap\<close>, which starts empty. \<open>indexAfter\<close> is the index after the calls
  and \<open>listedTripIDs\<close> the ids of the trips they returned.
\<close>

type_synonym 'f listTripsCall = "'f world \<times> Settings \<times> 'f cache \<times> int \<times> string \<times> int"

fun indexAfter :: "'f listTripsCall list \<Rightarrow> tripIndex \<Rightarrow> tripIndex" where
  "indexAfter [] idx = idx"
| "indexAfter ((w, settings, cache, now, sessionCookie, tokenID) # calls) idx =
     indexAfter calls (snd (snd (queryTripsAPI w settings cache now sessionCookie tokenID idx)))"

fun listedTripIDs :: "'f listTripsCall list \<Rightarrow> tripIndex \<Rightarrow> string set" where
  "listedTripIDs [] idx = {}"
| "listedTripIDs ((w, settings, cache, now, sessionCookie, tokenID) # calls) idx =
     (case queryTripsAPI w settings cache now sessionCookie tokenID idx of
        (Inr trips, sent, idx') \<Rightarrow> ID ` set trips \<union> listedTripIDs calls idx'
      | (Inl err, sent, idx') \<Rightarrow> listedTripIDs calls idx')"

text \<open>
  The timestamp a well-formed hit is sorted by, and the coordinate pair it becomes.
\<close>

definition hitCoordinate :: "'f gval \<Rightarrow> 'f list" where
  "hitCoordinate hit =
     (case hitLocation hit of None \<Rightarrow> [] | Some loc \<Rightarrow> [Longitude loc, Latitude loc])"

definition timestampOf :: "'f gval \<Rightarrow> string" where
  "timestampOf hit = (case hitTimestamp hit of None \<Rightarrow> [] | Some t \<Rightarrow> t)"

section \<open>Login: the signature submission and the vehicle query\<close>

text \<open>
  \<^verbatim>\<open>url.Values.Encode\<close> writes \<^verbatim>\<open>key=value\<close> pairs joined by \<^verbatim>\<open>&\<close>, in the order of the
  sorted keys; the pairs are given in that order.
\<close>

fun encodeValues :: "(string \<times> string) list \<Rightarrow> string" where
  "encodeValues [] = []"
| "encodeValues [(k, v)] = QueryEscape k @ ''='' @ QueryEscape v"
| "encodeValues ((k, v) # rest) = QueryEscape k @ ''='' @ QueryEscape v @ ''&'' @ encodeValues rest"

definition httpPost :: "'f world \<Rightarrow> string \<Rightarrow> string \<Rightarrow> string \<Rightarrow> string + http_response" where
  "httpPost w url contentType content =
     (case newRequestErr w ''POST'' url of
        Some err \<Rightarrow> Inl err
      | None \<Rightarrow>
          clientDo w \<lparr>reqMethod = ''POST'', reqURL = url,
                      reqHeaders = [(''Content-Type'', contentType)], reqBody = content\<rparr>)"

definition submitChallengePost :: "'f world \<Rightarrow> Settings \<Rightarrow> string \<Rightarrow> string \<Rightarrow> string + http_response" where
  "submitChallengePost w settings state signature =
     httpPost w (SubmitChallengeURL settings) ''application/x-www-form-urlencoded''
       (encodeValues
          [(''client_id'', ClientID settings),
           (''domain'', Domain' settings),
           (''grant_type'', GrantType settings),
           (''signature'', signature),
           (''state'', state)])"

definition internalServerError :: "string \<Rightarrow> 'f response" where
  "internalServerError msg = \<lparr>status = 500, payload = SendString msg, cookies = []\<rparr>"

text \<open>
  \<^verbatim>\<open>HandleSubmitChallenge\<close>: the response and the cache after it. \<open>newUUID\<close> is what
  \<^verbatim>\<open>uuid.New().String()\<close> returns; \<open>setNow\<close> and \<open>cookieNow\<close> are the two readings of the
  clock, the first inside \<^verbatim>\<open>cacheInstance.Set\<close>, the second for \<^verbatim>\<open>cookie.Expires\<close>.
\<close>

definition HandleSubmitChallenge ::
  "'f world \<Rightarrow> Settings \<Rightarrow> string \<Rightarrow> int \<Rightarrow> int \<Rightarrow> string \<Rightarrow> string \<Rightarrow> 'f cache
    \<Rightarrow> 'f response \<times> 'f cache" where
  "HandleSubmitChallenge w settings newUUID setNow cookieNow state signature cache =
     (case submitChallengePost w settings state signature of
        Inl err \<Rightarrow>
          (internalServerError ''Failed to make request to external service'', cache)
      | Inr resp \<Rightarrow>
          if statusCode resp \<ge> 300 then
            (internalServerError
               (''Received non-success status code: '' @ itoa (statusCode resp)), cache)
          else
            (case respBody resp of
               Inl err \<Rightarrow>
                 (internalServerError ''Failed to read response from external service'', cache)
             | Inr bytes \<Rightarrow>
                 (case jsonUnmarshal w bytes of
                    Inl err \<Rightarrow> (internalServerError ''Error processing response'', cache)
                  | Inr responseMap \<Rightarrow>
                      (case map_of responseMap ''access_token'' of
                         None \<Rightarrow> (internalServerError ''Token not found in response'', cache)
                       | Some token \<Rightarrow>
                           let sessionID = newUUID;
                               cache' = cacheSet cache sessionID token twoHours setNow;
                               sessionCookie =
                                 \<lparr>cookieName = ''session_id'', cookieValue = sessionID,
                                  cookieExpires = cookieNow + twoHours, cookieHTTPOnly = True,
                                  cookieDomain = ''localhost''\<rparr>
                           in (\<lparr>status = 200,
                                payload = SendJSON
                                  [(''message'', GString ''Challenge accepted and session started!''),
                                   (''access_token'', token)],
                                cookies = [sessionCookie]\<rparr>, cache')))))"

definition newline :: string where
  "newline = [CHR 0x0A]"

definition graphqlQuery :: "string \<Rightarrow> string" where
  \<open>graphqlQuery ethAddress =
     ''{'' @ newline @
     ''        vehicles(first: 10, filterBy: { owner: "'' @ ethAddress @ ''" }) {'' @ newline @
     ''            nodes {'' @ newline @
     ''                tokenId,'' @ newline @
     ''                earnings {'' @ newline @
     ''                    totalTokens'' @ newline @
     ''                },'' @ newline @
     ''                definition {'' @ newline @
     ''                    make,'' @ newline @
     ''                    model,'' @ newline @
     ''                    year'' @ newline @
     ''                },'' @ newline @
     ''                aftermarketDevice {'' @ newline @
     ''                    address,'' @ newline @
     ''                    serial,'' @ newline @
     ''                    manufacturer {'' @ newline @
     ''                        name'' @ newline @
     ''                    }'' @ newline @
     ''                }'' @ newline @
     ''            }'' @ newline @
     ''        }'' @ newline @
     ''    }''\<close>

text \<open>
  \<^verbatim>\<open>queryIdentityAPIForVehicles\<close>: the result and the outbound requests sent. The status
  code of the response is not read anywhere in the function.
\<close>

definition queryIdentityAPIForVehicles ::
  "'f world \<Rightarrow> Settings \<Rightarrow> string \<Rightarrow> (fault + Vehicle list) \<times> request list" where
  "queryIdentityAPIForVehicles w settings ethAddress =
     (case marshalRequest w (graphqlQuery ethAddress) of
        Inl err \<Rightarrow> (Inl (Error err), [])
      | Inr payloadBytes \<Rightarrow>
          (case newRequestErr w ''POST'' (IdentityAPIURL settings) of
             Some err \<Rightarrow> (Inl (Error err), [])
           | None \<Rightarrow>
               let req = \<lparr>reqMethod = ''POST'', reqURL = IdentityAPIURL settings,
                          reqHeaders = [(''Content-Type'', ''application/json'')],
                          reqBody = payloadBytes\<rparr>
               in (case clientDo w req of
                     Inl err \<Rightarrow> (Inl (Error err), [req])
                   | Inr resp \<Rightarrow>
                       (case respBody resp of
                          Inl err \<Rightarrow> (Inl (Error err), [req])
                        | Inr bytes \<Rightarrow>
                            (case decodeVehicles w bytes of
                               Inl err \<Rightarrow> (Inl (Error err), [req])
                             | Inr nodes \<Rightarrow> (Inr nodes, [req]))))))"

section \<open>Concrete runs\<close>

text \<open>
  A world in which every request is answered with the given status and body, and in
  which the decoders read that body as the given values.
\<close>

definition replyingWorld ::
  "int \<Rightarrow> string \<Rightarrow> (string + 'f gmap) \<Rightarrow> (string + Trip list) \<Rightarrow> (string + Vehicle list)
    \<Rightarrow> 'f world" where
  "replyingWorld code bytes asMapping asTrips asVehicles =
     \<lparr>newRequestErr = (\<lambda>method url. None),
      clientDo = (\<lambda>req. Inr \<lparr>statusCode = code, respBody = Inr bytes\<rparr>),
      jsonUnmarshal = (\<lambda>b. if b = bytes then asMapping else Inl ''invalid character''),
      decodeTrips = (\<lambda>b. if b = bytes then asTrips else Inl ''invalid character''),
      decodeVehicles = (\<lambda>b. if b = bytes then asVehicles else Inl ''invalid character''),
      marshalRequest = (\<lambda>query. Inr query)\<rparr>"

definition exampleSettings :: Settings where
  "exampleSettings =
     \<lparr>ClientID = ''client'', Domain' = ''example.org'', GrantType = ''authorization_code'',
      SubmitChallengeURL = ''https://auth.example.org/submit'',
      IdentityAPIURL = ''https://identity.example.org/query'',
      TripsAPIBaseURL = ''https://trips.example.org'',
      DeviceDataAPIBaseURL = ''https://data.example.org''\<rparr>"

text \<open>The provider accepts a signature and answers \<^verbatim>\<open>{"access_token":"tok"}\<close>.\<close>

definition acceptingWorld :: "real world" where
  \<open>acceptingWorld =
     replyingWorld 200 ''{"access_token":"tok"}''
       (Inr [(''access_token'', GString ''tok'')]) (Inl ''cannot unmarshal'') (Inr [])\<close>

definition telemetryHit :: "'f \<Rightarrow> 'f \<Rightarrow> string \<Rightarrow> 'f gval" where
  "telemetryHit lat lon ts =
     GMap [(''_source'',
            GMap [(''data'',
                   GMap [(''latitude'', GFloat lat), (''longitude'', GFloat lon),
                         (''timestamp'', GString ts)])])]"

text \<open>
  The telemetry service answers with the two samples of the specification's round-trip
  example, the later one first.
\<close>

definition twoSampleBody :: string where
  \<open>twoSampleBody =
     ''{"hits":{"hits":['' @
     ''{"_source":{"data":{"latitude":10,"longitude":20,"timestamp":"2024-01-01T00:00:02Z"}}},'' @
     ''{"_source":{"data":{"latitude":11,"longitude":21,"timestamp":"2024-01-01T00:00:01Z"}}}'' @
     '']}}''\<close>

definition twoSampleHits :: "real gval list" where
  "twoSampleHits =
     [telemetryHit 10 20 ''2024-01-01T00:00:02Z'', telemetryHit 11 21 ''2024-01-01T00:00:01Z'']"

definition twoSampleWorld :: "real world" where
  "twoSampleWorld =
     replyingWorld 200 twoSampleBody
       (Inr [(''hits'', GMap [(''hits'', GSlice twoSampleHits)])])
       (Inl ''cannot unmarshal'') (Inr [])"

text \<open>The telemetry service answers with one hit that has no \<^verbatim>\<open>latitude\<close>.\<close>

definition missingLatitudeWorld :: "real world" where
  \<open>missingLatitudeWorld =
     replyingWorld 200
       ''{"hits":{"hits":[{"_source":{"data":{"longitude":20,"timestamp":"2024-01-01T00:00:01Z"}}}]}}''
       (Inr [(''hits'',
              GMap [(''hits'',
                     GSlice [GMap [(''_source'',
                                    GMap [(''data'',
                                           GMap [(''longitude'', GFloat 20),
                                                 (''timestamp'',
                                                  GString ''2024-01-01T00:00:01Z'')])])]])])])
       (Inl ''cannot unmarshal'') (Inr [])\<close>

text \<open>The telemetry service answers with one hit that has no \<^verbatim>\<open>timestamp\<close>.\<close>

definition missingTimestampWorld :: "real world" where
  \<open>missingTimestampWorld =
     replyingWorld 200
       ''{"hits":{"hits":[{"_source":{"data":{"latitude":10,"longitude":20}}}]}}''
       (Inr [(''hits'',
              GMap [(''hits'',
                     GSlice [GMap [(''_source'',
                                    GMap [(''data'',
                                           GMap [(''latitude'', GFloat 10),
                                                 (''longitude'', GFloat 20)])])]])])])
       (Inl ''cannot unmarshal'') (Inr [])\<close>

text \<open>The trip service lists two trips of a vehicle.\<close>

definition tripA :: Trip where
  "tripA = \<lparr>ID = ''trip-a'', Start = \<lparr>Time = ''2024-01-01T00:00:00Z''\<rparr>,
            End = \<lparr>Time = ''2024-01-01T01:00:00Z''\<rparr>\<rparr>"

definition tripB :: Trip where
  "tripB = \<lparr>ID = ''trip-b'', Start = \<lparr>Time = ''2024-01-02T00:00:00Z''\<rparr>,
            End = \<lparr>Time = ''2024-01-02T01:00:00Z''\<rparr>\<rparr>"

definition twoTripWorld :: "real world" where
  \<open>twoTripWorld =
     replyingWorld 200
       (''{"trips":[{"id":"trip-a","start":{"time":"2024-01-01T00:00:00Z"},'' @
        ''"end":{"time":"2024-01-01T01:00:00Z"}},'' @
        ''{"id":"trip-b","start":{"time":"2024-01-02T00:00:00Z"},'' @
        ''"end":{"time":"2024-01-02T01:00:00Z"}}]}'')
       (Inr []) (Inr [tripA, tripB]) (Inr [])\<close>

text \<open>
  The identity service answers with status 500 and a JSON error document, which decodes
  into a \<^verbatim>\<open>VehicleResponse\<close> without an error: the document has no \<^verbatim>\<open>data\<close> field, so
  the nodes stay empty.
\<close>

definition failingIdentityWorld :: "real world" where
  \<open>failingIdentityWorld =
     replyingWorld 500 ''{"errors":[{"message":"internal error"}]}''
       (Inr [(''errors'', GSlice [GMap [(''message'', GString ''internal error'')]])])
       (Inr []) (Inr [])\<close>

text \<open>A cache holding a privilege token for the session \<^verbatim>\<open>s1\<close>, never expiring.\<close>

definition privilegedCache :: "real cache" where
  "privilegedCache =
     [privilegeTokenKey ''s1'' \<mapsto> \<lparr>object = GString ''priv'', expiration = 0\<rparr>]"

section \<open>Helper lemmas\<close>

lemma length_coordsOf: "length (coordsOf locations) = length locations"
  by (induction locations) simp_all

lemma privilegeTokenKey_neq: "privilegeTokenKey s \<noteq> s"
proof
  assume "privilegeTokenKey s = s"
  then have "length (privilegeTokenKey s) = length s" by simp
  then show False by (simp add: privilegeTokenKey_def)
qed

lemma HandleSubmitChallenge_accepted:
  assumes "submitChallengePost w settings state signature = Inr resp"
    and "statusCode resp < 300"
    and "respBody resp = Inr bytes"
    and "jsonUnmarshal w bytes = Inr responseMap"
    and "map_of responseMap ''access_token'' = Some token"
  shows "HandleSubmitChallenge w settings newUUID setNow cookieNow state signature cache =
     (\<lparr>status = 200,
       payload = SendJSON [(''message'', GString ''Challenge accepted and session started!''),
                           (''access_token'', token)],
       cookies = [\<lparr>cookieName = ''session_id'', cookieValue = newUUID,
                   cookieExpires = cookieNow + twoHours, cookieHTTPOnly = True,
                   cookieDomain = ''localhost''\<rparr>]\<rparr>,
      cacheSet cache newUUID token twoHours setNow)"
  using assms by (simp add: HandleSubmitChallenge_def Let_def)

lemma acceptingWorld_post:
  \<open>submitChallengePost acceptingWorld exampleSettings ''state-1'' ''0xsig''
     = Inr \<lparr>statusCode = 200, respBody = Inr ''{"access_token":"tok"}''\<rparr>\<close>
  by (simp add: submitChallengePost_def httpPost_def acceptingWorld_def replyingWorld_def)

lemma cacheGet_cacheSet_other:
  "k' \<noteq> k \<Longrightarrow> cacheGet (cacheSet c k x d t) k' now = cacheGet c k' now"
  by (simp add: cacheGet_def cacheSet_def)

lemma cacheGet_cacheSet_same:
  "0 \<le> t \<Longrightarrow> cacheGet (cacheSet c k x twoHours t) k now
     = (if now \<le> t + twoHours then Some x else None)"
  by (simp add: cacheGet_def cacheSet_def twoHours_def)

lemma queryTripsAPI_miss:
  "cacheGet cache (privilegeTokenKey sessionCookie) now = None \<Longrightarrow>
   queryTripsAPI w settings cache now sessionCookie tokenID idx
     = (Inl (Error ''privilege token not found in cache''), [], idx)"
  by (simp add: queryTripsAPI_def)

lemma queryDeviceDataHistory_miss:
  "cacheGet cache (privilegeTokenKey sessionCookie) now = None \<Longrightarrow>
   queryDeviceDataHistory w settings cache now sessionCookie tokenID startTime endTime
     = (Inl (Error ''privilege token not found in cache''), [])"
  by (simp add: queryDeviceDataHistory_def)

subsection \<open>The insertion sort\<close>

lemma insertHit_total:
  "\<forall>y\<in>set ys. lt x y = Some (k x < k y) \<Longrightarrow>
   insertHit lt x ys = Some (takeWhile (\<lambda>y. k x < k y) ys @ x # dropWhile (\<lambda>y. k x < k y) ys)"
  by (induction ys) auto

lemma insertHit_set:
  "insertHit lt x ys = Some zs \<Longrightarrow> set zs = insert x (set ys)"
  by (induction ys arbitrary: zs) (auto split: option.splits bool.splits)

lemma insertHit_mset:
  "insertHit lt x ys = Some zs \<Longrightarrow> mset zs = add_mset x (mset ys)"
  by (induction ys arbitrary: zs) (auto split: option.splits bool.splits)

text \<open>The sorted part, read from its last element, stays in descending order.\<close>

lemma insertHit_desc:
  fixes k :: "'a \<Rightarrow> 'b::linorder"
  assumes "\<forall>y\<in>set ys. lt x y = Some (k x < k y)"
    and "sorted_wrt (\<lambda>a b. k b \<le> k a) ys"
    and "insertHit lt x ys = Some zs"
  shows "sorted_wrt (\<lambda>a b. k b \<le> k a) zs"
  using assms
proof (induction ys arbitrary: zs)
  case Nil
  then show ?case by auto
next
  case (Cons y ys)
  show ?case
  proof (cases "k x < k y")
    case True
    with Cons.prems obtain zs' where z: "insertHit lt x ys = Some zs'" "zs = y # zs'"
      by (auto split: option.splits)
    have "sorted_wrt (\<lambda>a b. k b \<le> k a) zs'"
      using Cons.IH [of zs'] Cons.prems z by auto
    moreover have "set zs' = insert x (set ys)" using z insertHit_set by fastforce
    ultimately show ?thesis using z True Cons.prems by auto
  next
    case False
    with Cons.prems have "zs = x # y # ys" by auto
    then show ?thesis using False Cons.prems by fastforce
  qed
qed

text \<open>An insertion never moves an element past one with the same key.\<close>

lemma insertHit_stable:
  fixes k :: "'a \<Rightarrow> 'b::linorder"
  assumes "\<forall>y\<in>set ys. lt x y = Some (k x < k y)"
    and "insertHit lt x ys = Some zs"
  shows "filter (\<lambda>h. k h = t) (rev zs) = filter (\<lambda>h. k h = t) (rev ys @ [x])"
  using assms
proof (induction ys arbitrary: zs)
  case Nil
  then show ?case by auto
next
  case (Cons y ys)
  show ?case
  proof (cases "k x < k y")
    case True
    with Cons.prems obtain zs' where z: "insertHit lt x ys = Some zs'" "zs = y # zs'"
      by (auto split: option.splits)
    have "filter (\<lambda>h. k h = t) (rev zs') = filter (\<lambda>h. k h = t) (rev ys @ [x])"
      using Cons.IH [of zs'] Cons.prems z by auto
    then show ?thesis using z True by auto
  next
    case False
    with Cons.prems have "zs = x # y # ys" by auto
    then show ?thesis by simp
  qed
qed

lemma insertionSort_total:
  fixes k :: "'a \<Rightarrow> 'b::linorder"
  assumes "\<forall>a\<in>set front \<union> set xs. \<forall>b\<in>set front \<union> set xs. lt a b = Some (k a < k b)"
    and "sorted_wrt (\<lambda>a b. k b \<le> k a) front"
  shows "\<exists>out. insertionSort lt front xs = Some out \<and> mset out = mset front + mset xs
           \<and> sorted (map k out)
           \<and> (\<forall>t. filter (\<lambda>h. k h = t) out = filter (\<lambda>h. k h = t) (rev front @ xs))"
  using assms
proof (induction xs arbitrary: front)
  case Nil
  have "sorted_wrt (\<lambda>a b. k a \<le> k b) (rev front)"
    using Nil.prems(2) by (simp add: sorted_wrt_rev)
  then show ?case by (simp add: sorted_map)
next
  case (Cons x xs)
  have cmp: "\<forall>y\<in>set front. lt x y = Some (k x < k y)" using Cons.prems(1) by simp
  then obtain front' where f: "insertHit lt x front = Some front'"
    using insertHit_total [of front lt x k] by blast
  have s: "set front' = insert x (set front)" using f by (rule insertHit_set)
  have d: "sorted_wrt (\<lambda>a b. k b \<le> k a) front'"
    using insertHit_desc [OF cmp Cons.prems(2) f] .
  have "\<forall>a\<in>set front' \<union> set xs. \<forall>b\<in>set front' \<union> set xs. lt a b = Some (k a < k b)"
    using Cons.prems(1) s by auto
  from Cons.IH [OF this d] obtain out where o: "insertionSort lt front' xs = Some out"
    "mset out = mset front' + mset xs" "sorted (map k out)"
    "\<forall>t. filter (\<lambda>h. k h = t) out = filter (\<lambda>h. k h = t) (rev front' @ xs)" by blast
  have "mset out = mset front + mset (x # xs)" using o(2) insertHit_mset [OF f] by simp
  moreover have "\<forall>t. filter (\<lambda>h. k h = t) out = filter (\<lambda>h. k h = t) (rev front @ x # xs)"
    using o(4) insertHit_stable [OF cmp f] by simp
  ultimately show ?case using o f by simp
qed

lemma insertionSort_sorted_input:
  fixes k :: "'a \<Rightarrow> 'b::linorder"
  assumes "\<forall>a\<in>set front \<union> set xs. \<forall>b\<in>set front \<union> set xs. lt a b = Some (k a < k b)"
    and "sorted (map k (rev front @ xs))"
  shows "insertionSort lt front xs = Some (rev front @ xs)"
  using assms
proof (induction xs arbitrary: front)
  case Nil
  then show ?case by simp
next
  case (Cons x xs)
  have "insertHit lt x front = Some (x # front)"
  proof (cases front)
    case Nil
    then show ?thesis by simp
  next
    case (Cons y ys)
    have "\<not> k x < k y" using Cons.prems(2) Cons by (auto simp: sorted_append)
    moreover have "lt x y = Some (k x < k y)" using Cons.prems(1) Cons by simp
    ultimately show ?thesis using Cons by simp
  qed
  moreover have "insertionSort lt (x # front) xs = Some (rev (x # front) @ xs)"
    using Cons.IH [of "x # front"] Cons.prems by auto
  ultimately show ?case by simp
qed

lemma lessHit_total:
  "hitTimestamp a \<noteq> None \<Longrightarrow> hitTimestamp b \<noteq> None \<Longrightarrow>
   lessHit a b = Some (timestampOf a < timestampOf b)"
  by (auto simp: lessHit_def timestampOf_def)

lemma sortHits_total:
  assumes "list_all (\<lambda>h. hitTimestamp h \<noteq> None) hits"
  shows "\<exists>out. sortHits hits = Some out \<and> mset out = mset hits
           \<and> sorted (map timestampOf out)
           \<and> (\<forall>t. filter (\<lambda>h. timestampOf h = t) out = filter (\<lambda>h. timestampOf h = t) hits)
           \<and> (sorted (map timestampOf hits) \<longrightarrow> out = hits)
           \<and> sortHits out = Some out"
proof -
  have tot: "\<forall>a\<in>set [] \<union> set hits. \<forall>b\<in>set [] \<union> set hits.
      lessHit a b = Some (timestampOf a < timestampOf b)"
    using assms by (auto simp: list_all_iff lessHit_total)
  from insertionSort_total [OF tot] obtain out where o:
    "insertionSort lessHit [] hits = Some out" "mset out = mset [] + mset hits"
    "sorted (map timestampOf out)"
    "\<forall>t. filter (\<lambda>h. timestampOf h = t) out = filter (\<lambda>h. timestampOf h = t) (rev [] @ hits)"
    by auto
  have same: "set out = set hits"
    using o(2) by (metis add_cancel_left_left mset.simps(1) set_mset_mset)
  have tot': "\<forall>a\<in>set [] \<union> set out. \<forall>b\<in>set [] \<union> set out.
      lessHit a b = Some (timestampOf a < timestampOf b)"
    using tot same by simp
  have "sorted (map timestampOf hits) \<longrightarrow> out = hits"
    using insertionSort_sorted_input [OF tot] o(1) by auto
  moreover have "insertionSort lessHit [] out = Some out"
    using insertionSort_sorted_input [OF tot'] o(3) by auto
  ultimately show ?thesis using o by (auto simp: sortHits_def SliceStable_def)
qed

lemma extractLocationData_total:
  "list_all (\<lambda>h. hitLocation h \<noteq> None) hits \<Longrightarrow>
   \<exists>locations. extractLocationData hits = Some locations
     \<and> coordsOf locations = map hitCoordinate hits"
  by (induction hits) (auto simp: hitCoordinate_def)

lemma extractLocationData_None:
  "\<not> list_all (\<lambda>h. hitLocation h \<noteq> None) hits \<Longrightarrow> extractLocationData hits = None"
  by (induction hits) (auto split: option.splits)

lemma insertionSort_set:
  "insertionSort lt front xs = Some out \<Longrightarrow> set out = set front \<union> set xs"
proof (induction xs arbitrary: front)
  case Nil
  then show ?case by auto
next
  case (Cons x xs)
  then obtain front' where f: "insertHit lt x front = Some front'"
    and r: "insertionSort lt front' xs = Some out"
    by (auto split: option.splits)
  show ?case using Cons.IH [OF r] insertHit_set [OF f] by auto
qed

subsection \<open>The trip index\<close>

lemma recordTrips_lookup:
  "recordTrips tokenID trips idx k = (if k \<in> ID ` set trips then Some tokenID else idx k)"
  by (induction trips arbitrary: idx) auto

lemma queryTripsAPI_cases:
  "(\<exists>err sent. queryTripsAPI w settings cache now sessionCookie tokenID idx = (Inl err, sent, idx))
   \<or> (\<exists>trips sent. queryTripsAPI w settings cache now sessionCookie tokenID idx
         = (Inr trips, sent, recordTrips tokenID trips idx))"
  by (auto simp: queryTripsAPI_def Let_def split: option.splits sum.splits)

lemma dom_indexAfter:
  "dom (indexAfter calls idx) = dom idx \<union> listedTripIDs calls idx"
proof (induction calls arbitrary: idx)
  case Nil
  then show ?case by simp
next
  case (Cons call calls)
  obtain w settings cache now sessionCookie tokenID
    where call: "call = (w, settings, cache, now, sessionCookie, tokenID)"
    by (cases call) auto
  from queryTripsAPI_cases [of w settings cache now sessionCookie tokenID idx]
  show ?case
  proof
    assume "\<exists>err sent. queryTripsAPI w settings cache now sessionCookie tokenID idx
        = (Inl err, sent, idx)"
    then obtain err sent where q: "queryTripsAPI w settings cache now sessionCookie tokenID idx
        = (Inl err, sent, idx)" by blast
    show ?thesis using Cons.IH [of idx] by (simp add: call q)
  next
    assume "\<exists>trips sent. queryTripsAPI w settings cache now sessionCookie tokenID idx
        = (Inr trips, sent, recordTrips tokenID trips idx)"
    then obtain trips sent where q: "queryTripsAPI w settings cache now sessionCookie tokenID idx
        = (Inr trips, sent, recordTrips tokenID trips idx)" by blast
    have "dom (recordTrips tokenID trips idx) = dom idx \<union> ID ` set trips"
      by (auto simp: recordTrips_lookup dom_def)
    then show ?thesis
      using Cons.IH [of "recordTrips tokenID trips idx"] by (simp add: call q Un_assoc)
  qed
qed

lemma handleMapDataForTrip_404:
  "(\<exists>resp. fst (handleMapDataForTrip w settings cache now sessionCookie idx tripID startTime
               endTime) = Inr resp \<and> status resp = 404)
   \<longleftrightarrow> idx tripID = None"
  by (auto simp: handleMapDataForTrip_def split: option.splits prod.splits sum.splits fault.splits)

lemma queryDeviceDataHistory_sent:
  "req \<in> set (snd (queryDeviceDataHistory w settings cache now sessionCookie tokenID startTime
      endTime)) \<Longrightarrow> reqURL req = historyURL settings tokenID startTime endTime"
  by (auto simp: queryDeviceDataHistory_def bearerRequest_def Let_def
      split: option.splits sum.splits)

lemma handleMapDataForTrip_sent:
  "idx tripID = Some tokenID \<Longrightarrow>
   snd (handleMapDataForTrip w settings cache now sessionCookie idx tripID startTime endTime)
     = snd (queryDeviceDataHistory w settings cache now sessionCookie tokenID startTime endTime)"
  by (auto simp: handleMapDataForTrip_def split: prod.splits sum.splits fault.splits)

section \<open>The claims\<close>

text \<open>
  C1. \<^verbatim>\<open>HandleSubmitChallenge\<close> creates a session exactly when the provider accepts.
  When the request fails, the provider's status is 300 or more, the body cannot be read,
  the body does not decode as a JSON mapping, or the mapping has no \<^verbatim>\<open>access_token\<close>,
  the response is an error (status 500), no cookie is set and the cache is unchanged.
  Otherwise the response has status 200, the cache gains exactly the entry from the new
  session identifier to the token, which is found up to two hours after the call and not
  later, and one cookie is set: \<^verbatim>\<open>session_id\<close>, HTTP-only, with the session identifier as
  its value and two hours from now as its expiry. The clock is a count of nanoseconds
  since 1970, hence not negative.
\<close>

theorem HandleSubmitChallenge_session_iff_accepted:
  assumes "0 \<le> setNow"
  shows
  "(let out = HandleSubmitChallenge w settings newUUID setNow cookieNow state signature cache;
        r = fst out; cache' = snd out
    in
      (((\<exists>err. submitChallengePost w settings state signature = Inl err)
        \<or> (\<exists>resp. submitChallengePost w settings state signature = Inr resp
              \<and> (statusCode resp \<ge> 300
                  \<or> (\<exists>err. respBody resp = Inl err)
                  \<or> (\<exists>bytes. respBody resp = Inr bytes
                        \<and> ((\<exists>err. jsonUnmarshal w bytes = Inl err)
                            \<or> (\<exists>m. jsonUnmarshal w bytes = Inr m
                                  \<and> map_of m ''access_token'' = None))))))
       \<longrightarrow> status r = 500 \<and> cookies r = [] \<and> cache' = cache)
      \<and> (\<forall>resp bytes m token.
            submitChallengePost w settings state signature = Inr resp \<and> statusCode resp < 300
            \<and> respBody resp = Inr bytes \<and> jsonUnmarshal w bytes = Inr m
            \<and> map_of m ''access_token'' = Some token
          \<longrightarrow> status r = 200
              \<and> cache' = cache(newUUID \<mapsto> \<lparr>object = token, expiration = setNow + twoHours\<rparr>)
              \<and> (\<forall>now. cacheGet cache' newUUID now
                    = (if now \<le> setNow + twoHours then Some token else None))
              \<and> cookies r =
                  [\<lparr>cookieName = ''session_id'', cookieValue = newUUID,
                    cookieExpires = cookieNow + twoHours, cookieHTTPOnly = True,
                    cookieDomain = ''localhost''\<rparr>]))"
  using assms unfolding Let_def
  apply (intro conjI impI allI)
   apply (auto simp: HandleSubmitChallenge_def internalServerError_def cacheSet_def cacheGet_def
      twoHours_def split: sum.splits option.splits)
  done

theorem HandleSubmitChallenge_session_witness:
  "fst (HandleSubmitChallenge acceptingWorld exampleSettings ''s1'' 1000 1001 ''state-1'' ''0xsig''
          Map.empty)
     = \<lparr>status = 200,
        payload = SendJSON [(''message'', GString ''Challenge accepted and session started!''),
                            (''access_token'', GString ''tok'')],
        cookies = [\<lparr>cookieName = ''session_id'', cookieValue = ''s1'',
                    cookieExpires = 1001 + twoHours, cookieHTTPOnly = True,
                    cookieDomain = ''localhost''\<rparr>]\<rparr>
   \<and> snd (HandleSubmitChallenge acceptingWorld exampleSettings ''s1'' 1000 1001 ''state-1'' ''0xsig''
          Map.empty)
     = [''s1'' \<mapsto> \<lparr>object = GString ''tok'', expiration = 1000 + twoHours\<rparr>]"
  using HandleSubmitChallenge_session_iff_accepted
    [where setNow = 1000 and w = acceptingWorld and settings = exampleSettings
       and newUUID = "''s1''" and cookieNow = 1001 and state = "''state-1''"
       and signature = "''0xsig''" and cache = Map.empty]
  by (simp add: HandleSubmitChallenge_def submitChallengePost_def httpPost_def acceptingWorld_def
      replyingWorld_def exampleSettings_def cacheSet_def twoHours_def Let_def)

text \<open>
  C2, as the code has it. \<^verbatim>\<open>HandleSubmitChallenge\<close> stores the token under the session
  identifier itself, and the trip functions look up another key, \<^verbatim>\<open>privilegeToken_\<close>
  followed by the cookie value. So after a successful submission the cache maps the
  cookie value to exactly the provider's token while the two hours last, and the entry
  under the privilege-token key is what it was before the submission; when there was
  none, \<^verbatim>\<open>queryTripsAPI\<close> and \<^verbatim>\<open>queryDeviceDataHistory\<close> called with that cookie fail with
  "privilege token not found in cache". The cache the trip functions read and the cache
  the submission writes are taken to be one store.
\<close>

theorem session_key_is_not_privilege_key:
  assumes "submitChallengePost w settings state signature = Inr resp"
    and "statusCode resp < 300"
    and "respBody resp = Inr bytes"
    and "jsonUnmarshal w bytes = Inr responseMap"
    and "map_of responseMap ''access_token'' = Some token"
    and "0 \<le> setNow" and "now \<le> setNow + twoHours"
    and "HandleSubmitChallenge w settings newUUID setNow cookieNow state signature cache
           = (r, cache')"
  shows "map cookieValue (cookies r) = [newUUID]
    \<and> cacheGet cache' newUUID now = Some token
    \<and> cacheGet cache' (privilegeTokenKey newUUID) now
        = cacheGet cache (privilegeTokenKey newUUID) now
    \<and> (cacheGet cache (privilegeTokenKey newUUID) now = None \<longrightarrow>
         queryTripsAPI w' settings' cache' now newUUID tokenID idx
           = (Inl (Error ''privilege token not found in cache''), [], idx)
         \<and> queryDeviceDataHistory w' settings' cache' now newUUID tokenID startTime endTime
           = (Inl (Error ''privilege token not found in cache''), []))"
proof -
  have out: "r = \<lparr>status = 200,
       payload = SendJSON [(''message'', GString ''Challenge accepted and session started!''),
                           (''access_token'', token)],
       cookies = [\<lparr>cookieName = ''session_id'', cookieValue = newUUID,
                   cookieExpires = cookieNow + twoHours, cookieHTTPOnly = True,
                   cookieDomain = ''localhost''\<rparr>]\<rparr>"
    and c: "cache' = cacheSet cache newUUID token twoHours setNow"
    using HandleSubmitChallenge_accepted [OF assms(1-5)] assms(8) by simp_all
  have own: "cacheGet cache' newUUID now = Some token"
    using c assms(6,7) by (simp add: cacheGet_cacheSet_same)
  have other: "cacheGet cache' (privilegeTokenKey newUUID) now
        = cacheGet cache (privilegeTokenKey newUUID) now"
    using c by (simp add: cacheGet_cacheSet_other privilegeTokenKey_neq)
  show ?thesis
    using out own other by (simp add: queryTripsAPI_miss queryDeviceDataHistory_miss)
qed

text \<open>
  A run of it: the cache already holds the privilege token \<^verbatim>\<open>priv\<close> for the session; after
  the submission the cookie value finds \<^verbatim>\<open>tok\<close> and the privilege-token key still finds
  \<^verbatim>\<open>priv\<close>.
\<close>

theorem session_key_is_not_privilege_key_witness:
  "cacheGet (snd (HandleSubmitChallenge acceptingWorld exampleSettings ''s1'' 1000 1001
                    ''state-1'' ''0xsig'' privilegedCache)) ''s1'' 2000 = Some (GString ''tok'')
   \<and> cacheGet (snd (HandleSubmitChallenge acceptingWorld exampleSettings ''s1'' 1000 1001
                    ''state-1'' ''0xsig'' privilegedCache)) (privilegeTokenKey ''s1'') 2000
       = Some (GString ''priv'')"
proof -
  obtain r cache' where h: "HandleSubmitChallenge acceptingWorld exampleSettings ''s1'' 1000 1001
        ''state-1'' ''0xsig'' privilegedCache = (r, cache')"
    by (cases "HandleSubmitChallenge acceptingWorld exampleSettings ''s1'' 1000 1001
        ''state-1'' ''0xsig'' (privilegedCache :: real cache)") blast
  have "cacheGet cache' ''s1'' 2000 = Some (GString ''tok'')
      \<and> cacheGet cache' (privilegeTokenKey ''s1'') 2000
          = cacheGet privilegedCache (privilegeTokenKey ''s1'') 2000"
    using session_key_is_not_privilege_key
      [OF acceptingWorld_post _ _ _ _ _ _ h, where now = 2000 and token = "GString ''tok''"
        and responseMap = "[(''access_token'', GString ''tok'')]"]
    by (simp add: acceptingWorld_def replyingWorld_def twoHours_def)
  then show ?thesis
    using h by (simp add: privilegedCache_def cacheGet_def)
qed

text \<open>
  C2 as stated fails: starting from an empty cache, the submission succeeds and the
  cookie value \<^verbatim>\<open>s1\<close> maps to the provider's token, yet \<^verbatim>\<open>queryTripsAPI\<close> with that
  cookie, within the two hours, ends with "privilege token not found in cache".
\<close>

theorem session_cookie_finds_no_privilege_token:
  "cacheGet (snd (HandleSubmitChallenge acceptingWorld exampleSettings ''s1'' 1000 1001
                    ''state-1'' ''0xsig'' Map.empty)) ''s1'' 2000 = Some (GString ''tok'')
   \<and> queryTripsAPI twoTripWorld exampleSettings
        (snd (HandleSubmitChallenge acceptingWorld exampleSettings ''s1'' 1000 1001
                ''state-1'' ''0xsig'' Map.empty)) 2000 ''s1'' 7 Map.empty
       = (Inl (Error ''privilege token not found in cache''), [], Map.empty)"
  by (simp add: HandleSubmitChallenge_def submitChallengePost_def httpPost_def acceptingWorld_def
      replyingWorld_def exampleSettings_def cacheSet_def cacheGet_def twoHours_def Let_def
      queryTripsAPI_def privilegeTokenKey_def)

text \<open>
  C3, as the code has it. On a successful submission the only cookie is \<^verbatim>\<open>session_id\<close>
  and its value is the session identifier, whatever the token is; the body of the
  response is the JSON object with the acknowledgement \<^verbatim>\<open>message\<close> and, under
  \<^verbatim>\<open>access_token\<close>, the token the provider returned.
\<close>

theorem submit_response_carries_token:
  assumes "submitChallengePost w settings state signature = Inr resp"
    and "statusCode resp < 300"
    and "respBody resp = Inr bytes"
    and "jsonUnmarshal w bytes = Inr responseMap"
    and "map_of responseMap ''access_token'' = Some token"
  shows "map cookieName (cookies (fst (HandleSubmitChallenge w settings newUUID setNow cookieNow
            state signature cache))) = [''session_id'']
    \<and> map cookieValue (cookies (fst (HandleSubmitChallenge w settings newUUID setNow cookieNow
            state signature cache))) = [newUUID]
    \<and> payload (fst (HandleSubmitChallenge w settings newUUID setNow cookieNow
            state signature cache))
        = SendJSON [(''message'', GString ''Challenge accepted and session started!''),
                    (''access_token'', token)]"
  using HandleSubmitChallenge_accepted [OF assms] by simp

theorem submit_response_carries_token_witness:
  "map cookieValue (cookies (fst (HandleSubmitChallenge acceptingWorld exampleSettings ''s1'' 1000
       1001 ''state-1'' ''0xsig'' Map.empty))) = [''s1'']"
  using submit_response_carries_token
    [OF acceptingWorld_post, where token = "GString ''tok''"
      and responseMap = "[(''access_token'', GString ''tok'')]"]
  by (simp add: acceptingWorld_def replyingWorld_def)

text \<open>
  C3 as stated fails: the body sent to the browser after a successful submission holds
  the access token \<^verbatim>\<open>tok\<close>.
\<close>

theorem submit_response_body_has_token:
  "payload (fst (HandleSubmitChallenge acceptingWorld exampleSettings ''s1'' 1000 1001
       ''state-1'' ''0xsig'' Map.empty))
     = SendJSON [(''message'', GString ''Challenge accepted and session started!''),
                 (''access_token'', GString ''tok'')]"
  by (simp add: HandleSubmitChallenge_def submitChallengePost_def httpPost_def acceptingWorld_def
      replyingWorld_def exampleSettings_def Let_def)

text \<open>
  C4, where the code departs from the claim. The telemetry reply has one hit without
  \<^verbatim>\<open>latitude\<close>. The assertion \<^verbatim>\<open>data["latitude"].(float64)\<close> in \<^verbatim>\<open>extractLocationData\<close>
  panics, so \<^verbatim>\<open>handleMapDataForTrip\<close> ends with that panic and sends no error response;
  a body that is not JSON, by contrast, is reported with status 500.
\<close>

theorem missing_latitude_panics:
  "fst (handleMapDataForTrip missingLatitudeWorld exampleSettings privilegedCache 0 ''s1''
     [''trip-a'' \<mapsto> 7] ''trip-a'' ''2024-01-01T00:00:00Z'' ''2024-01-01T01:00:00Z'') = Inl Panic"
  by (simp add: handleMapDataForTrip_def queryDeviceDataHistory_def privilegedCache_def
      cacheGet_def missingLatitudeWorld_def replyingWorld_def resultHits_def index_def
      sortHits_def SliceStable_def hitLocation_def hitData_def Let_def)

text \<open>
  It is so for every reply that decodes to a \<^verbatim>\<open>hits.hits\<close> array in which some hit lacks
  its latitude or its longitude: the call ends with a panic, never with an error.
\<close>

lemma malformed_location_panics:
  assumes "cacheGet cache (privilegeTokenKey sessionCookie) now = Some (GString tok)"
    and "newRequestErr w ''GET'' (historyURL settings tokenID startTime endTime) = None"
    and "clientDo w (bearerRequest (historyURL settings tokenID startTime endTime) tok) = Inr resp"
    and "respBody resp = Inr bytes"
    and "jsonUnmarshal w bytes = Inr result"
    and "resultHits result = Some hits"
    and "\<not> list_all (\<lambda>h. hitLocation h \<noteq> None) hits"
  shows "fst (queryDeviceDataHistory w settings cache now sessionCookie tokenID startTime endTime)
           = Inl Panic"
proof (cases "sortHits hits")
  case None
  then show ?thesis using assms(1-6) by (simp add: queryDeviceDataHistory_def Let_def)
next
  case (Some out)
  then have "set out = set hits"
    using insertionSort_set [of lessHit "[]" hits out] by (simp add: sortHits_def SliceStable_def)
  then have "\<not> list_all (\<lambda>h. hitLocation h \<noteq> None) out"
    using assms(7) by (simp add: list_all_iff)
  then have "extractLocationData out = None" by (rule extractLocationData_None)
  then show ?thesis using assms(1-6) Some by (simp add: queryDeviceDataHistory_def Let_def)
qed

text \<open>
  A single hit without \<^verbatim>\<open>timestamp\<close> is not noticed at all: the comparison of the sort
  never runs on one element, and the path is returned.
\<close>

lemma missing_timestamp_is_accepted:
  "fst (handleMapDataForTrip missingTimestampWorld exampleSettings privilegedCache 0 ''s1''
     [''trip-a'' \<mapsto> 7] ''trip-a'' ''2024-01-01T00:00:00Z'' ''2024-01-01T01:00:00Z'')
   = Inr \<lparr>status = 200,
          payload = SendGeoJSON
            (convertToGeoJSON [\<lparr>Latitude = 10, Longitude = 20\<rparr>] ''trip-a''
               ''2024-01-01T00:00:00Z'' ''2024-01-01T01:00:00Z''),
          cookies = []\<rparr>"
  by (simp add: handleMapDataForTrip_def queryDeviceDataHistory_def privilegedCache_def
      cacheGet_def missingTimestampWorld_def replyingWorld_def resultHits_def index_def
      sortHits_def SliceStable_def hitLocation_def hitData_def Let_def)

text \<open>
  C5. On hits that all carry a timestamp string, the telemetry sort returns a
  permutation of the hits in ascending lexicographic order of the timestamps; the hits
  of any one timestamp keep their input order; a sequence already in order comes back
  as it is; and sorting the result again changes nothing.
\<close>

theorem sortHits_stable_ascending:
  assumes "list_all (\<lambda>h. hitTimestamp h \<noteq> None) hits"
  shows "\<exists>out. sortHits hits = Some out \<and> mset out = mset hits
           \<and> sorted (map timestampOf out)
           \<and> (\<forall>t. filter (\<lambda>h. timestampOf h = t) out = filter (\<lambda>h. timestampOf h = t) hits)
           \<and> (sorted (map timestampOf hits) \<longrightarrow> out = hits)
           \<and> sortHits out = Some out"
  using assms by (rule sortHits_total)

theorem sortHits_stable_ascending_witness:
  "sortHits [telemetryHit (1::real) 2 ''2024-01-01T00:00:02Z'',
             telemetryHit 3 4 ''2024-01-01T00:00:01Z'',
             telemetryHit 5 6 ''2024-01-01T00:00:02Z'',
             telemetryHit 7 8 ''2024-01-01T00:00:01Z'']
     = Some [telemetryHit 3 4 ''2024-01-01T00:00:01Z'',
             telemetryHit 7 8 ''2024-01-01T00:00:01Z'',
             telemetryHit 1 2 ''2024-01-01T00:00:02Z'',
             telemetryHit 5 6 ''2024-01-01T00:00:02Z'']"
  using sortHits_stable_ascending
    [of "[telemetryHit (1::real) 2 ''2024-01-01T00:00:02Z'',
             telemetryHit 3 4 ''2024-01-01T00:00:01Z'',
             telemetryHit 5 6 ''2024-01-01T00:00:02Z'',
             telemetryHit 7 8 ''2024-01-01T00:00:01Z'']"]
  by (simp add: sortHits_def SliceStable_def lessHit_def hitTimestamp_def hitData_def index_def
      telemetryHit_def)

text \<open>
  C6. When the trip is in the index, the cache holds a privilege token string, the
  telemetry request is answered with a readable body that decodes to a mapping with a
  \<^verbatim>\<open>hits.hits\<close> array, and every hit has its timestamp, latitude and longitude, then
  \<^verbatim>\<open>handleMapDataForTrip\<close> answers with status 200 and a feature collection whose
  coordinates are, one for one and in the sorted order, the \<^verbatim>\<open>[longitude, latitude]\<close> pairs
  of the hits sorted by timestamp.
\<close>

theorem handleMapDataForTrip_path_in_time_order:
  assumes "idx tripID = Some tokenID"
    and "cacheGet cache (privilegeTokenKey sessionCookie) now = Some (GString tok)"
    and "newRequestErr w ''GET'' (historyURL settings tokenID startTime endTime) = None"
    and "clientDo w (bearerRequest (historyURL settings tokenID startTime endTime) tok) = Inr resp"
    and "respBody resp = Inr bytes"
    and "jsonUnmarshal w bytes = Inr result"
    and "resultHits result = Some hits"
    and "list_all (\<lambda>h. hitTimestamp h \<noteq> None) hits"
    and "list_all (\<lambda>h. hitLocation h \<noteq> None) hits"
  shows "\<exists>sortedHits locations.
      sortHits hits = Some sortedHits
      \<and> mset sortedHits = mset hits
      \<and> sorted (map timestampOf sortedHits)
      \<and> (\<forall>t. filter (\<lambda>h. timestampOf h = t) sortedHits = filter (\<lambda>h. timestampOf h = t) hits)
      \<and> extractLocationData sortedHits = Some locations
      \<and> fst (handleMapDataForTrip w settings cache now sessionCookie idx tripID startTime endTime)
          = Inr \<lparr>status = 200,
                 payload = SendGeoJSON (convertToGeoJSON locations tripID startTime endTime),
                 cookies = []\<rparr>
      \<and> map (\<lambda>feature. LineString (geometry feature))
            (Features (convertToGeoJSON locations tripID startTime endTime))
          = [map hitCoordinate sortedHits]"
proof -
  from sortHits_total [OF assms(8)] obtain sortedHits where s:
    "sortHits hits = Some sortedHits" "mset sortedHits = mset hits"
    "sorted (map timestampOf sortedHits)"
    "\<forall>t. filter (\<lambda>h. timestampOf h = t) sortedHits = filter (\<lambda>h. timestampOf h = t) hits"
    by blast
  have "set sortedHits = set hits" using s(2) by (metis set_mset_mset)
  then have "list_all (\<lambda>h. hitLocation h \<noteq> None) sortedHits"
    using assms(9) by (simp add: list_all_iff)
  from extractLocationData_total [OF this] obtain locations where l:
    "extractLocationData sortedHits = Some locations"
    "coordsOf locations = map hitCoordinate sortedHits" by blast
  have q: "queryDeviceDataHistory w settings cache now sessionCookie tokenID startTime endTime
      = (Inr locations, [bearerRequest (historyURL settings tokenID startTime endTime) tok])"
    using assms(2-7) s(1) l(1) by (simp add: queryDeviceDataHistory_def Let_def)
  have h: "fst (handleMapDataForTrip w settings cache now sessionCookie idx tripID startTime endTime)
          = Inr \<lparr>status = 200,
                 payload = SendGeoJSON (convertToGeoJSON locations tripID startTime endTime),
                 cookies = []\<rparr>"
    using assms(1) q by (simp add: handleMapDataForTrip_def)
  have c: "map (\<lambda>feature. LineString (geometry feature))
            (Features (convertToGeoJSON locations tripID startTime endTime))
          = [map hitCoordinate sortedHits]"
    using l(2) by (simp add: convertToGeoJSON_def NewLineStringFeature_def
        NewFeatureCollection_def AddFeature_def Let_def)
  show ?thesis
    by (rule exI [of _ sortedHits], rule exI [of _ locations]) (simp add: s l(1) h c)
qed

text \<open>
  The round trip of the specification: the hits arrive with the timestamps
  \<^verbatim>\<open>2024-01-01T00:00:02Z\<close> and \<^verbatim>\<open>2024-01-01T00:00:01Z\<close> and the latitude and longitude
  pairs (10, 20) and (11, 21); the path is \<^verbatim>\<open>[[21, 11], [20, 10]]\<close>.
\<close>

theorem handleMapDataForTrip_round_trip:
  "\<exists>fc. fst (handleMapDataForTrip twoSampleWorld exampleSettings privilegedCache 0 ''s1''
          [''trip-a'' \<mapsto> 7] ''trip-a'' ''2024-01-01T00:00:00Z'' ''2024-01-01T01:00:00Z'')
       = Inr \<lparr>status = 200, payload = SendGeoJSON fc, cookies = []\<rparr>
     \<and> map (\<lambda>feature. LineString (geometry feature)) (Features fc) = [[[21, 11], [20, 10]]]"
proof -
  have sorted_hits: "sortHits twoSampleHits = Some [telemetryHit 11 21 ''2024-01-01T00:00:01Z'',
                telemetryHit 10 20 ''2024-01-01T00:00:02Z'']"
    by (simp add: sortHits_def SliceStable_def lessHit_def hitTimestamp_def hitData_def index_def
        telemetryHit_def twoSampleHits_def)
  have "\<exists>sortedHits locations.
      sortHits twoSampleHits = Some sortedHits
      \<and> mset sortedHits = mset twoSampleHits
      \<and> sorted (map timestampOf sortedHits)
      \<and> (\<forall>t. filter (\<lambda>h. timestampOf h = t) sortedHits
            = filter (\<lambda>h. timestampOf h = t) twoSampleHits)
      \<and> extractLocationData sortedHits = Some locations
      \<and> fst (handleMapDataForTrip twoSampleWorld exampleSettings privilegedCache 0 ''s1''
          [''trip-a'' \<mapsto> 7] ''trip-a'' ''2024-01-01T00:00:00Z'' ''2024-01-01T01:00:00Z'')
          = Inr \<lparr>status = 200,
                 payload = SendGeoJSON (convertToGeoJSON locations ''trip-a''
                    ''2024-01-01T00:00:00Z'' ''2024-01-01T01:00:00Z''),
                 cookies = []\<rparr>
      \<and> map (\<lambda>feature. LineString (geometry feature))
            (Features (convertToGeoJSON locations ''trip-a''
                    ''2024-01-01T00:00:00Z'' ''2024-01-01T01:00:00Z''))
          = [map hitCoordinate sortedHits]"
    by (rule handleMapDataForTrip_path_in_time_order
          [where tokenID = 7 and tok = "''priv''" and bytes = twoSampleBody
             and resp = "\<lparr>statusCode = 200, respBody = Inr twoSampleBody\<rparr>"
             and result = "[(''hits'', GMap [(''hits'', GSlice twoSampleHits)])]"])
      (simp_all add: privilegedCache_def cacheGet_def twoSampleWorld_def replyingWorld_def
        resultHits_def index_def telemetryHit_def hitTimestamp_def hitData_def hitLocation_def
        twoSampleHits_def)
  then show ?thesis
    using sorted_hits
    by (auto simp: hitCoordinate_def hitLocation_def hitData_def index_def telemetryHit_def)
qed

text \<open>
  C7. \<^verbatim>\<open>handleMapDataForTrip\<close> answers 404 exactly for the trip ids that no
  \<^verbatim>\<open>queryTripsAPI\<close> call of the process has returned. After a successful
  \<^verbatim>\<open>queryTripsAPI\<close> for a vehicle token, every trip it returned maps to that token in the
  index, whatever the index held for it before, and the other ids are as before; a
  request for the path of such a trip is not answered 404, and what it sends is what
  \<^verbatim>\<open>queryDeviceDataHistory\<close> sends for that token, to the history URL of that token.
\<close>

theorem trip_index_resolution:
  "((\<exists>resp. fst (handleMapDataForTrip w settings cache now sessionCookie
                  (indexAfter calls Map.empty) tripID startTime endTime) = Inr resp
        \<and> status resp = 404)
     \<longleftrightarrow> tripID \<notin> listedTripIDs calls Map.empty)
   \<and> (\<forall>trips sent idx' trip.
         queryTripsAPI w' settings' cache' now' sessionCookie' tokenID idx = (Inr trips, sent, idx')
         \<and> trip \<in> set trips
        \<longrightarrow> idx' (ID trip) = Some tokenID
           \<and> (\<forall>k. k \<notin> ID ` set trips \<longrightarrow> idx' k = idx k)
           \<and> (\<forall>resp. fst (handleMapDataForTrip w settings cache now sessionCookie idx' (ID trip)
                            startTime endTime) = Inr resp \<longrightarrow> status resp \<noteq> 404)
           \<and> snd (handleMapDataForTrip w settings cache now sessionCookie idx' (ID trip)
                    startTime endTime)
               = snd (queryDeviceDataHistory w settings cache now sessionCookie tokenID
                        startTime endTime)
           \<and> (\<forall>req \<in> set (snd (handleMapDataForTrip w settings cache now sessionCookie idx'
                                   (ID trip) startTime endTime)).
                 reqURL req = historyURL settings tokenID startTime endTime))"
proof -
  have first: "(\<exists>resp. fst (handleMapDataForTrip w settings cache now sessionCookie
                  (indexAfter calls Map.empty) tripID startTime endTime) = Inr resp
        \<and> status resp = 404)
     \<longleftrightarrow> tripID \<notin> listedTripIDs calls Map.empty"
    using dom_indexAfter [of calls Map.empty] handleMapDataForTrip_404
    by (metis Un_empty_left dom_empty domIff)
  have second: "idx' (ID trip) = Some tokenID
           \<and> (\<forall>k. k \<notin> ID ` set trips \<longrightarrow> idx' k = idx k)
           \<and> (\<forall>resp. fst (handleMapDataForTrip w settings cache now sessionCookie idx' (ID trip)
                            startTime endTime) = Inr resp \<longrightarrow> status resp \<noteq> 404)
           \<and> snd (handleMapDataForTrip w settings cache now sessionCookie idx' (ID trip)
                    startTime endTime)
               = snd (queryDeviceDataHistory w settings cache now sessionCookie tokenID
                        startTime endTime)
           \<and> (\<forall>req \<in> set (snd (handleMapDataForTrip w settings cache now sessionCookie idx'
                                   (ID trip) startTime endTime)).
                 reqURL req = historyURL settings tokenID startTime endTime)"
    if q: "queryTripsAPI w' settings' cache' now' sessionCookie' tokenID idx = (Inr trips, sent, idx')"
      and t: "trip \<in> set trips" for trips sent idx' trip
  proof -
    have i: "idx' = recordTrips tokenID trips idx"
      using q queryTripsAPI_cases [of w' settings' cache' now' sessionCookie' tokenID idx] by auto
    have a: "idx' (ID trip) = Some tokenID" using i t by (simp add: recordTrips_lookup)
    have b: "\<forall>k. k \<notin> ID ` set trips \<longrightarrow> idx' k = idx k" using i by (simp add: recordTrips_lookup)
    have c: "\<forall>resp. fst (handleMapDataForTrip w settings cache now sessionCookie idx' (ID trip)
                            startTime endTime) = Inr resp \<longrightarrow> status resp \<noteq> 404"
      using a handleMapDataForTrip_404 [of w settings cache now sessionCookie idx' "ID trip"
          startTime endTime] by auto
    have d: "snd (handleMapDataForTrip w settings cache now sessionCookie idx' (ID trip)
                    startTime endTime)
               = snd (queryDeviceDataHistory w settings cache now sessionCookie tokenID
                        startTime endTime)"
      using a by (rule handleMapDataForTrip_sent)
    have e: "\<forall>req \<in> set (snd (handleMapDataForTrip w settings cache now sessionCookie idx'
                                   (ID trip) startTime endTime)).
                 reqURL req = historyURL settings tokenID startTime endTime"
      unfolding d using queryDeviceDataHistory_sent by blast
    show ?thesis using a b c d e by blast
  qed
  show ?thesis using first second by blast
qed

text \<open>
  A run of it: the vehicle 7 lists the trips \<^verbatim>\<open>trip-a\<close> and \<^verbatim>\<open>trip-b\<close>, then the vehicle 9
  lists the same two. \<^verbatim>\<open>trip-c\<close> is answered 404, \<^verbatim>\<open>trip-a\<close> maps to 7 after the first
  call and to 9 after the second.
\<close>

theorem trip_index_resolution_witness:
  "fst (handleMapDataForTrip twoSampleWorld exampleSettings privilegedCache 0 ''s1''
          (indexAfter [(twoTripWorld, exampleSettings, privilegedCache, 0, ''s1'', 7),
                       (twoTripWorld, exampleSettings, privilegedCache, 5, ''s1'', 9)] Map.empty)
          ''trip-c'' ''2024-01-01T00:00:00Z'' ''2024-01-01T01:00:00Z'')
     = Inr \<lparr>status = 404, payload = SendString ''Trip not found'', cookies = []\<rparr>
   \<and> listedTripIDs [(twoTripWorld, exampleSettings, privilegedCache, 0, ''s1'', 7),
                     (twoTripWorld, exampleSettings, privilegedCache, 5, ''s1'', 9)] Map.empty
     = {''trip-a'', ''trip-b''}
   \<and> indexAfter [(twoTripWorld, exampleSettings, privilegedCache, 0, ''s1'', 7)] Map.empty ''trip-a''
     = Some 7
   \<and> indexAfter [(twoTripWorld, exampleSettings, privilegedCache, 0, ''s1'', 7),
                  (twoTripWorld, exampleSettings, privilegedCache, 5, ''s1'', 9)] Map.empty ''trip-a''
     = Some 9"
  using trip_index_resolution
    [where calls = "[(twoTripWorld, exampleSettings, privilegedCache, 0, ''s1'', 7),
                     (twoTripWorld, exampleSettings, privilegedCache, 5, ''s1'', 9)]"
       and tripID = "''trip-c''" and w = twoSampleWorld and settings = exampleSettings
       and cache = privilegedCache and now = 0 and sessionCookie = "''s1''"
       and startTime = "''2024-01-01T00:00:00Z''" and endTime = "''2024-01-01T01:00:00Z''"]
  by (simp add: handleMapDataForTrip_def queryTripsAPI_def twoTripWorld_def replyingWorld_def
      privilegedCache_def cacheGet_def exampleSettings_def Let_def tripA_def tripB_def
      bearerRequest_def insert_commute)

text \<open>
  C8. When the cache has no live entry under the privilege-token key of the session
  cookie (none was stored, or it has expired), \<^verbatim>\<open>queryTripsAPI\<close> and
  \<^verbatim>\<open>queryDeviceDataHistory\<close> return the error "privilege token not found in cache", the
  trip index is untouched, and no outbound request is sent; \<^verbatim>\<open>handleMapDataForTrip\<close>
  sends none either and answers with an error status, 404 for an unknown trip and 500
  otherwise.
\<close>

theorem cache_miss_sends_nothing:
  assumes "cacheGet cache (privilegeTokenKey sessionCookie) now = None"
  shows "queryTripsAPI w settings cache now sessionCookie tokenID idx
           = (Inl (Error ''privilege token not found in cache''), [], idx)
    \<and> queryDeviceDataHistory w settings cache now sessionCookie tokenID startTime endTime
           = (Inl (Error ''privilege token not found in cache''), [])
    \<and> snd (handleMapDataForTrip w settings cache now sessionCookie idx tripID startTime endTime)
           = []
    \<and> (\<exists>resp. fst (handleMapDataForTrip w settings cache now sessionCookie idx tripID
                     startTime endTime) = Inr resp
          \<and> (status resp = 404 \<or> status resp = 500))"
  using assms
  by (auto simp: queryTripsAPI_miss queryDeviceDataHistory_miss handleMapDataForTrip_def
      split: option.splits)

text \<open>A run of it, on an entry that expired one nanosecond ago.\<close>

theorem cache_miss_sends_nothing_witness:
  "queryTripsAPI twoTripWorld exampleSettings
      [privilegeTokenKey ''s1'' \<mapsto> \<lparr>object = GString ''priv'', expiration = 100\<rparr>] 101 ''s1'' 7
      Map.empty
     = (Inl (Error ''privilege token not found in cache''), [], Map.empty)
   \<and> handleMapDataForTrip twoSampleWorld exampleSettings
      [privilegeTokenKey ''s1'' \<mapsto> \<lparr>object = GString ''priv'', expiration = 100\<rparr>] 101 ''s1''
      [''trip-a'' \<mapsto> 7] ''trip-a'' ''2024-01-01T00:00:00Z'' ''2024-01-01T01:00:00Z''
     = (Inr \<lparr>status = 500,
             payload = SendJSON [(''error'', GString
               ''Failed to fetch historical data: privilege token not found in cache'')],
             cookies = []\<rparr>, [])"
proof -
  have miss: "cacheGet [privilegeTokenKey ''s1'' \<mapsto> \<lparr>object = GString ''priv'', expiration = 100\<rparr>]
      (privilegeTokenKey ''s1'') 101 = (None :: real gval option)"
    by (simp add: cacheGet_def)
  show ?thesis
    using cache_miss_sends_nothing [OF miss]
    by (simp add: handleMapDataForTrip_def)
qed

text \<open>
  C9, where the code departs from the claim. The identity service answers with status
  500 and a JSON error document. \<^verbatim>\<open>queryIdentityAPIForVehicles\<close> never reads the status:
  the document decodes without an error, and the function returns the empty vehicle
  list as a success.
\<close>

theorem identity_error_status_gives_empty_list:
  "fst (queryIdentityAPIForVehicles failingIdentityWorld exampleSettings ''0xABC'') = Inr []"
  by (simp add: queryIdentityAPIForVehicles_def failingIdentityWorld_def replyingWorld_def Let_def)

text \<open>
  C10. For every list of locations, \<^verbatim>\<open>convertToGeoJSON\<close> returns a feature collection
  with exactly one feature, of geometry LineString, whose coordinates are the
  \<^verbatim>\<open>[longitude, latitude]\<close> pairs of the locations, as many as the locations, and whose
  properties are exactly \<^verbatim>\<open>type\<close> (LineString), \<^verbatim>\<open>trip_id\<close>, \<^verbatim>\<open>trip_start\<close>, \<^verbatim>\<open>trip_end\<close>,
  \<^verbatim>\<open>privacy_zone\<close> (1), \<^verbatim>\<open>color\<close> (black) and \<^verbatim>\<open>point-color\<close> (black). The function has
  no error result.
\<close>

theorem convertToGeoJSON_one_LineString:
  "\<exists>feature.
     convertToGeoJSON locations tripID tripStart tripEnd
       = \<lparr>collectionType = ''FeatureCollection'', Features = [feature]\<rparr>
     \<and> featureType feature = ''Feature''
     \<and> geometryType (geometry feature) = ''LineString''
     \<and> LineString (geometry feature) = coordsOf locations
     \<and> length (LineString (geometry feature)) = length locations
     \<and> dom (Properties feature)
         = {''type'', ''trip_id'', ''trip_start'', ''trip_end'', ''privacy_zone'', ''color'',
            ''point-color''}
     \<and> Properties feature ''type'' = Some (PString ''LineString'')
     \<and> Properties feature ''trip_id'' = Some (PString tripID)
     \<and> Properties feature ''trip_start'' = Some (PString tripStart)
     \<and> Properties feature ''trip_end'' = Some (PString tripEnd)
     \<and> Properties feature ''privacy_zone'' = Some (PInt 1)
     \<and> Properties feature ''color'' = Some (PString ''black'')
     \<and> Properties feature ''point-color'' = Some (PString ''black'')"
  by (simp add: convertToGeoJSON_def NewLineStringFeature_def NewFeatureCollection_def
      AddFeature_def tripProperties_def length_coordsOf Let_def)

text \<open>The empty list of locations gives one feature with no coordinates.\<close>

theorem convertToGeoJSON_empty_path:
  "map (\<lambda>feature. LineString (geometry feature))
     (Features (convertToGeoJSON ([] :: real LocationData list) ''trip-a''
        ''2024-01-01T00:00:00Z'' ''2024-01-01T01:00:00Z'')) = [[]]"
proof -
  from convertToGeoJSON_one_LineString
    [of "[] :: real LocationData list" "''trip-a''" "''2024-01-01T00:00:00Z''"
      "''2024-01-01T01:00:00Z''"]
  obtain feature :: "real Feature" where
    "convertToGeoJSON ([] :: real LocationData list) ''trip-a''
        ''2024-01-01T00:00:00Z'' ''2024-01-01T01:00:00Z''
       = \<lparr>collectionType = ''FeatureCollection'', Features = [feature]\<rparr>"
    and "LineString (geometry feature) = coordsOf []"
    by (elim exE conjE)
  then show ?thesis by simp
qed

end
